theory Spec2Isabelle
  imports Main "HOL-Library.Sublist"
begin

section \<open>The shared state and the tools of main.py\<close>

text \<open>
  The workflow keeps one dictionary, \<^verbatim>\<open>ctx_state["state"]\<close>, whose keys are strings. A
  value stored under a key is either a text (\<^verbatim>\<open>report_content\<close>, \<^verbatim>\<open>review\<close>) or a
  dictionary from titles to texts (\<^verbatim>\<open>research_notes\<close>). A Python \<^verbatim>\<open>str\<close> is a HOL
  \<open>string\<close>, one \<open>char\<close> for each character; the tools only store and compare texts.
  A key that is not in a dictionary is \<open>None\<close> of the map.
\<close>

datatype state_value = Str string | Dict "string \<rightharpoonup> string"

type_synonym state = "string \<rightharpoonup> state_value"

text \<open>
  The exceptions the modelled statements can raise, with their message or key, and the
  error of the parser.
\<close>

datatype error = ValueError string | TypeError string | KeyError string | SyntaxError string

text \<open>
  A tool is an \<^verbatim>\<open>async def\<close> whose body edits the dictionary in place inside
  \<^verbatim>\<open>async with ctx.store.edit_state() as ctx_state\<close> and then returns a text. The model
  takes the dictionary as it is when the block is entered and returns the dictionary as
  the call leaves it, together with the outcome: \<open>Inr\<close> the returned text, or \<open>Inl\<close> the
  exception that left the body. The \<^verbatim>\<open>print\<close> that opens each tool writes to the
  console only and is left out. The fourth tool, \<^verbatim>\<open>search_web\<close> (lines 43 to 49),
  awaits the search LLM and returns its answer; it does not touch the state.

  \<^verbatim>\<open>record_notes\<close>, lines 52 to 59:
  \<^verbatim>\<open>
    if "research_notes" not in ctx_state["state"]:
        ctx_state["state"]["research_notes"] = {}
    ctx_state["state"]["research_notes"][notes_title] = notes
  return "Notes recorded."
  \<close>
  The item assignment of the third line needs a dictionary on its left: on a \<^verbatim>\<open>str\<close>
  Python raises \<^verbatim>\<open>TypeError\<close>, with the state as it was.
\<close>

definition record_notes :: "state \<Rightarrow> string \<Rightarrow> string \<Rightarrow> state \<times> (error + string)" where
  "record_notes st notes notes_title =
     (let st1 = (case st ''research_notes'' of
                   None \<Rightarrow> st(''research_notes'' \<mapsto> Dict Map.empty)
                 | Some _ \<Rightarrow> st)
      in case st1 ''research_notes'' of
           None \<Rightarrow> (st1, Inl (KeyError ''research_notes''))
         | Some (Str s) \<Rightarrow>
             (st1, Inl (TypeError ''str object does not support item assignment''))
         | Some (Dict d) \<Rightarrow>
             (st1(''research_notes'' \<mapsto> Dict (d(notes_title \<mapsto> notes))),
              Inr ''Notes recorded.''))"

text \<open>
  \<^verbatim>\<open>write_report\<close>, lines 61 to 66, and \<^verbatim>\<open>review_report\<close>, lines 68 to 73: one
  assignment to a key of the dictionary, which cannot raise.
\<close>

definition write_report :: "state \<Rightarrow> string \<Rightarrow> state \<times> (error + string)" where
  "write_report st report_content =
     (st(''report_content'' \<mapsto> Str report_content), Inr ''Report written.'')"

definition review_report :: "state \<Rightarrow> string \<Rightarrow> state \<times> (error + string)" where
  "review_report st review =
     (st(''review'' \<mapsto> Str review), Inr ''Report reviewed.'')"

text \<open>
  A call of one of the three tools that edit the state, as the runner dispatches it:
  the tool's name with its arguments in the order of the \<^verbatim>\<open>def\<close>.
\<close>

datatype tool_call =
    RecordNotes string string
  | WriteReport string
  | ReviewReport string

fun call_tool :: "state \<Rightarrow> tool_call \<Rightarrow> state \<times> (error + string)" where
  "call_tool st (RecordNotes notes notes_title) = record_notes st notes notes_title"
| "call_tool st (WriteReport report_content) = write_report st report_content"
| "call_tool st (ReviewReport review) = review_report st review"

text \<open>
  A sequence of calls on the same store, one after the other. An exception is not caught
  by the tools, so the sequence ends at the first call that raises; otherwise the texts
  the calls returned are collected in order.
\<close>

fun run_calls :: "state \<Rightarrow> tool_call list \<Rightarrow> state \<times> (error + string list)" where
  "run_calls st [] = (st, Inr [])"
| "run_calls st (c # cs) =
     (case call_tool st c of
        (st', Inl e) \<Rightarrow> (st', Inl e)
      | (st', Inr r) \<Rightarrow>
          (case run_calls st' cs of
             (st'', Inl e) \<Rightarrow> (st'', Inl e)
           | (st'', Inr rs) \<Rightarrow> (st'', Inr (r # rs))))"

text \<open>
  The contents of the store at the points where it can be read during such a sequence:
  before the first call and after each scoped edit has ended.
\<close>

fun store_trace :: "state \<Rightarrow> tool_call list \<Rightarrow> state list" where
  "store_trace st [] = [st]"
| "store_trace st (c # cs) =
     st # (case call_tool st c of
             (st', Inl e) \<Rightarrow> [st']
           | (st', Inr r) \<Rightarrow> store_trace st' cs)"

text \<open>
  Reading \<^verbatim>\<open>state["research_notes"][title]\<close>: the text stored under a title, if the
  notes exist and have that title.
\<close>

definition research_note :: "state \<Rightarrow> string \<Rightarrow> string option" where
  "research_note st title =
     (case st ''research_notes'' of Some (Dict d) \<Rightarrow> d title | _ \<Rightarrow> None)"

text \<open>
  The states the program produces hold a dictionary under \<^verbatim>\<open>research_notes\<close>, or do
  not have the key: no statement of main.py stores a text there.
\<close>

definition notes_well_formed :: "state \<Rightarrow> bool" where
  "notes_well_formed st =
     (case st ''research_notes'' of Some (Str s) \<Rightarrow> False | _ \<Rightarrow> True)"

section \<open>Agents and the workflow\<close>

text \<open>
  \<^verbatim>\<open>FunctionAgent(name=..., description=..., system_prompt=..., llm=..., tools=[...],
  can_handoff_to=[...])\<close>, lines 77 to 113. The tools are given by the names of their
  functions. The system prompt and the LLM handle are arguments to the language model
  and are not part of the declared state machine; they are left out.
\<close>

record FunctionAgent =
  name :: string
  description :: string
  tools :: "string list"
  can_handoff_to :: "string list"

definition research_agent :: FunctionAgent where
  "research_agent =
     \<lparr> name = ''ResearchAgent'',
       description = ''Useful for searching the web for information and recording notes.'',
       tools = [''search_web'', ''record_notes''],
       can_handoff_to = [''WriteAgent''] \<rparr>"

definition write_agent :: FunctionAgent where
  "write_agent =
     \<lparr> name = ''WriteAgent'',
       description = ''Useful for writing a report on a given topic.'',
       tools = [''write_report''],
       can_handoff_to = [''ReviewAgent'', ''ResearchAgent''] \<rparr>"

definition review_agent :: FunctionAgent where
  "review_agent =
     \<lparr> name = ''ReviewAgent'',
       description = ''Useful for reviewing a report and providing feedback.'',
       tools = [''review_report''],
       can_handoff_to = [''ResearchAgent'', ''WriteAgent''] \<rparr>"

text \<open>\<^verbatim>\<open>AgentWorkflow(agents=[...], root_agent=..., initial_state={...})\<close>, lines 116 to 124.\<close>

record AgentWorkflow =
  agents :: "FunctionAgent list"
  root_agent :: string
  initial_state :: state

definition agent_workflow :: AgentWorkflow where
  "agent_workflow =
     \<lparr> agents = [research_agent, write_agent, review_agent],
       root_agent = name research_agent,
       initial_state =
         [''research_notes'' \<mapsto> Dict Map.empty,
          ''report_content'' \<mapsto> Str ''Not written yet.'',
          ''review'' \<mapsto> Str ''Review required.''] \<rparr>"

text \<open>
  The state machine these declarations denote. Control starts at the root agent, and an
  agent hands control over to the agents named in its \<^verbatim>\<open>can_handoff_to\<close>. The runner
  that carries the handoffs out is the library's; main.py holds the declarations only.
\<close>

definition handoff_targets :: "AgentWorkflow \<Rightarrow> string \<Rightarrow> string list" where
  "handoff_targets flow a =
     concat (map can_handoff_to (filter (\<lambda>agent. name agent = a) (agents flow)))"

definition can_handoff :: "AgentWorkflow \<Rightarrow> string \<Rightarrow> string \<Rightarrow> bool" where
  "can_handoff flow a b = (b \<in> set (handoff_targets flow a))"

inductive active :: "AgentWorkflow \<Rightarrow> string \<Rightarrow> bool" for flow :: AgentWorkflow where
  root: "active flow (root_agent flow)"
| handoff: "active flow a \<Longrightarrow> can_handoff flow a b \<Longrightarrow> active flow b"

definition transition :: "AgentWorkflow \<Rightarrow> string \<Rightarrow> string \<Rightarrow> bool" where
  "transition flow a b = (active flow a \<and> can_handoff flow a b)"

section \<open>Startup\<close>

text \<open>
  Python compiles a module whole before it runs its first statement, and a module that
  does not parse raises \<^verbatim>\<open>SyntaxError\<close> with none of its statements run. Line 34 of
  main.py is
  \<^verbatim>\<open>Google Search_tool = google_types.Tool(Google Search=google_types.GoogleSearch())\<close>:
  the target of the assignment and the keyword of the call are each written with a space
  in them, and neither is an identifier. The names of the file are ASCII, and an ASCII
  identifier is a letter or an underscore followed by letters, digits and underscores.
\<close>

definition identifier_start :: "char \<Rightarrow> bool" where
  "identifier_start c =
     (c \<in> set ''abcdefghijklmnopqrstuvwxyzABCDEFGHIJKLMNOPQRSTUVWXYZ_'')"

definition identifier_char :: "char \<Rightarrow> bool" where
  "identifier_char c = (identifier_start c \<or> c \<in> set ''0123456789'')"

definition is_identifier :: "string \<Rightarrow> bool" where
  "is_identifier s =
     (case s of [] \<Rightarrow> False | c # cs \<Rightarrow> identifier_start c \<and> list_all identifier_char cs)"

definition line_34_target :: string where
  "line_34_target = ''Google Search_tool''"

definition line_34_keyword :: string where
  "line_34_keyword = ''Google Search''"

definition module_compiles :: bool where
  "module_compiles = (is_identifier line_34_target \<and> is_identifier line_34_keyword)"

text \<open>
  The start of the program. When the module compiles, its statements run in their order:
  \<^verbatim>\<open>load_dotenv()\<close> (line 18), the check of the key (lines 22 to 25), the two LLM
  handles (lines 30 to 38), the agents (lines 77 to 113), the workflow (lines 116 to
  124) and, when the file is the program's entry point,
  \<^verbatim>\<open>asyncio.run(run_workflow())\<close> (lines 167 and 168). The process environment is a
  map from names to texts. \<^verbatim>\<open>load_dotenv\<close> is the library's and may add variables,
  so it is a parameter. The check is
  \<^verbatim>\<open>if not os.getenv("GOOGLE_API_KEY"): raise ValueError(...)\<close>: Python's \<^verbatim>\<open>not\<close> is
  true of \<^verbatim>\<open>None\<close> and of the empty text. The result is the list of the steps that
  were started, with the exception that ended the start, if there was one.
\<close>

type_synonym environ = "string \<rightharpoonup> string"

datatype startup_step =
    LoadDotenv
  | ConfigureLLM
  | ConfigureSearchLLM
  | DeclareAgents
  | BuildWorkflow
  | RunWorkflow

definition getenv :: "environ \<Rightarrow> string \<Rightarrow> string option" where
  "getenv env k = env k"

definition py_not :: "string option \<Rightarrow> bool" where
  "py_not v = (case v of None \<Rightarrow> True | Some s \<Rightarrow> s = [])"

definition startup ::
  "(environ \<Rightarrow> environ) \<Rightarrow> environ \<Rightarrow> bool \<Rightarrow> startup_step list \<times> (error + unit)" where
  "startup load_dotenv env is_main =
     (if \<not> module_compiles then ([], Inl (SyntaxError ''invalid syntax''))
      else
        let env1 = load_dotenv env
        in if py_not (getenv env1 ''GOOGLE_API_KEY'')
           then ([LoadDotenv],
                 Inl (ValueError
                   ''GOOGLE_API_KEY not found. Please create a .env file and set your API key.''))
           else ([LoadDotenv, ConfigureLLM, ConfigureSearchLLM, DeclareAgents, BuildWorkflow]
                   @ (if is_main then [RunWorkflow] else []),
                 Inr ()))"

section \<open>The event renderer\<close>

text \<open>
  The output of a tool is any Python object. The renderer applies \<^verbatim>\<open>str\<close> to it, so
  an object is given by its kind and by what \<^verbatim>\<open>str\<close> does for it: \<^verbatim>\<open>None\<close>, a
  boolean, an integer, a text, or another object (the library's \<^verbatim>\<open>ToolOutput\<close>) with
  the outcome of its \<^verbatim>\<open>__str__\<close>, the text it returns or the exception it raises.
\<close>

datatype pyval = PNone | PBool bool | PInt int | PStr string | PObj "error + string"

fun digits :: "nat \<Rightarrow> string" where
  "digits n =
     (if n < 10 then [''0123456789'' ! n]
      else digits (n div 10) @ [''0123456789'' ! (n mod 10)])"

declare digits.simps [simp del]

text \<open>
  \<^verbatim>\<open>str(x)\<close>. It raises what \<^verbatim>\<open>__str__\<close> raises, and on an integer of more than 4300
  decimal digits, that is of absolute value \<^verbatim>\<open>10 ** 4300\<close> or more, it raises
  \<^verbatim>\<open>ValueError\<close>: 4300 is the interpreter's \<^verbatim>\<open>sys.int_max_str_digits\<close>, which
  main.py does not change.
\<close>

definition int_max_str_digits :: nat where
  "int_max_str_digits = 4300"

fun py_str :: "pyval \<Rightarrow> error + string" where
  "py_str PNone = Inr ''None''"
| "py_str (PBool b) = Inr (if b then ''True'' else ''False'')"
| "py_str (PInt i) =
     (if 10 ^ int_max_str_digits \<le> \<bar>i\<bar>
      then Inl (ValueError ''Exceeds the limit (4300 digits) for integer string conversion'')
      else Inr (if i < 0 then CHR ''-'' # digits (nat (- i)) else digits (nat i)))"
| "py_str (PStr s) = Inr s"
| "py_str (PObj r) = r"

text \<open>
  The slice \<^verbatim>\<open>x[:n]\<close>. A text has one; \<^verbatim>\<open>None\<close>, a boolean, an integer and a
  \<^verbatim>\<open>ToolOutput\<close> are not subscriptable, and Python raises \<^verbatim>\<open>TypeError\<close>.
\<close>

fun py_slice_to :: "pyval \<Rightarrow> nat \<Rightarrow> error + pyval" where
  "py_slice_to (PStr s) n = Inr (PStr (take n s))"
| "py_slice_to v n = Inl (TypeError ''object is not subscriptable'')"

text \<open>
  An event of the stream. \<^verbatim>\<open>hasattr(event, "current_agent_name")\<close> is asked of every
  event, so the attribute is a field that may be absent. Of an \<^verbatim>\<open>AgentOutput\<close> the
  renderer reads \<^verbatim>\<open>response.content\<close> (a text or \<^verbatim>\<open>None\<close>) and the \<^verbatim>\<open>tool_name\<close>
  of each of its \<^verbatim>\<open>tool_calls\<close>; of a \<^verbatim>\<open>ToolCallResult\<close> the \<^verbatim>\<open>tool_name\<close> and the
  \<^verbatim>\<open>tool_output\<close>; of a \<^verbatim>\<open>ToolCall\<close> the \<^verbatim>\<open>tool_name\<close> and the \<^verbatim>\<open>tool_kwargs\<close>.
  Every other event is \<open>OtherEvent\<close>.
\<close>

datatype event_kind =
    AgentOutput "string option" "string list"
  | ToolCallResult string pyval
  | ToolCall string "(string \<times> pyval) list"
  | OtherEvent

record event =
  current_agent_name :: "string option"
  kind :: event_kind

text \<open>
  What one \<^verbatim>\<open>print\<close> of the loop writes. Four of the lines start with a pictograph, and
  one prints a list, another a dictionary: each of those is a constructor that carries
  the values the line is formatted from. The line of the tool output is plain text and
  is given in full.
  \<^item> \<open>AgentBanner a\<close>: the banner of line 141 for the agent \<open>a\<close>;
  \<^item> \<open>OutputLine c\<close>: line 144, the label \<^verbatim>\<open>Output:\<close> and the content \<open>c\<close>;
  \<^item> \<open>PlanningLine ns\<close>: line 146, the label \<^verbatim>\<open>Planning to use tools:\<close> and the list \<open>ns\<close>;
  \<^item> \<open>ToolResultLine n\<close>: line 148, \<^verbatim>\<open>Tool Result (n):\<close>;
  \<^item> \<open>Plain s\<close>: the text \<open>s\<close>;
  \<^item> \<open>CallingToolLine n\<close>: line 154, \<^verbatim>\<open>Calling Tool: n\<close>;
  \<^item> \<open>ArgumentsLine kw\<close>: line 155, \<^verbatim>\<open>With arguments:\<close> and the dictionary \<open>kw\<close>.
\<close>

datatype printed =
    AgentBanner string
  | OutputLine string
  | PlanningLine "string list"
  | ToolResultLine string
  | Plain string
  | CallingToolLine string
  | ArgumentsLine "(string \<times> pyval) list"

text \<open>
  The expression \<^verbatim>\<open>str(event.tool_output)[:300]\<close> of line 150, as the f-string formats
  it: \<^verbatim>\<open>str\<close> is called first, the slice is taken of the text it returns, and the
  slice is formatted. An exception of any of the three leaves the expression.
\<close>

definition shown_output :: "pyval \<Rightarrow> error + string" where
  "shown_output tool_output =
     (case py_str tool_output of
        Inl e \<Rightarrow> Inl e
      | Inr s \<Rightarrow>
          (case py_slice_to (PStr s) 300 of
             Inl e \<Rightarrow> Inl e
           | Inr v \<Rightarrow> py_str v))"

text \<open>
  The \<^verbatim>\<open>elif\<close> branches of lines 142 to 155, by the class of the event. A branch prints
  when its condition is truthy: a content that is neither \<^verbatim>\<open>None\<close> nor empty, a list
  of tool calls that is not empty, a tool name that does not contain \<^verbatim>\<open>handoff\<close>.
  Line 150 prints \<^verbatim>\<open>f"    Output: {str(event.tool_output)[:300]}..."\<close>. Line 155
  prints the dictionary of the arguments, which is carried as it is: its formatting is
  not part of the model.
\<close>

fun render_kind :: "event_kind \<Rightarrow> error + printed list" where
  "render_kind (AgentOutput content tool_calls) =
     Inr ((case content of
             None \<Rightarrow> []
           | Some c \<Rightarrow> if c \<noteq> [] then [OutputLine c] else [])
          @ (if tool_calls \<noteq> [] then [PlanningLine tool_calls] else []))"
| "render_kind (ToolCallResult tool_name tool_output) =
     (case shown_output tool_output of
        Inl e \<Rightarrow> Inl e
      | Inr shown \<Rightarrow>
          Inr [ToolResultLine tool_name, Plain (''    Output: '' @ shown @ ''...'')])"
| "render_kind (ToolCall tool_name tool_kwargs) =
     Inr (if \<not> sublist ''handoff'' tool_name
          then [CallingToolLine tool_name, ArgumentsLine tool_kwargs]
          else [])"
| "render_kind OtherEvent = Inr []"

text \<open>
  The body of the loop, lines 139 to 155, with \<^verbatim>\<open>current_agent\<close> as it is before the
  event and after it. The first branch is taken by an event of any class that has the
  attribute with a name other than \<^verbatim>\<open>current_agent\<close>; the branches that follow are
  its \<^verbatim>\<open>elif\<close>s, so such an event prints the banner and nothing else.
\<close>

definition render_event :: "string option \<Rightarrow> event \<Rightarrow> error + string option \<times> printed list" where
  "render_event current_agent ev =
     (case current_agent_name ev of
        None \<Rightarrow>
          (case render_kind (kind ev) of
             Inl e \<Rightarrow> Inl e
           | Inr out \<Rightarrow> Inr (current_agent, out))
      | Some n \<Rightarrow>
          if Some n \<noteq> current_agent then Inr (Some n, [AgentBanner n])
          else (case render_kind (kind ev) of
                  Inl e \<Rightarrow> Inl e
                | Inr out \<Rightarrow> Inr (current_agent, out)))"

text \<open>
  The loop of line 138 over the events in their order of arrival, from
  \<^verbatim>\<open>current_agent = None\<close>. An exception of the body ends the loop.
\<close>

fun render_events :: "string option \<Rightarrow> event list \<Rightarrow> error + printed list" where
  "render_events current_agent [] = Inr []"
| "render_events current_agent (ev # evs) =
     (case render_event current_agent ev of
        Inl e \<Rightarrow> Inl e
      | Inr (current_agent', out) \<Rightarrow>
          (case render_events current_agent' evs of
             Inl e \<Rightarrow> Inl e
           | Inr outs \<Rightarrow> Inr (out @ outs)))"

definition stream_events :: "event list \<Rightarrow> error + printed list" where
  "stream_events evs = render_events None evs"

section \<open>Properties of the tools\<close>

lemma record_notes_returns:
  "notes_well_formed st \<Longrightarrow> snd (record_notes st notes notes_title) = Inr ''Notes recorded.''"
  by (simp add: record_notes_def notes_well_formed_def split: option.splits state_value.splits)

lemma record_notes_keeps_well_formed:
  "notes_well_formed st \<Longrightarrow> notes_well_formed (fst (record_notes st notes notes_title))"
  by (simp add: record_notes_def notes_well_formed_def split: option.splits state_value.splits)

lemma record_notes_research_note:
  "notes_well_formed st \<Longrightarrow>
     research_note (fst (record_notes st notes notes_title)) t =
       (if t = notes_title then Some notes else research_note st t)"
  by (simp add: record_notes_def notes_well_formed_def research_note_def
           split: option.splits state_value.splits)

lemma record_notes_other_keys:
  "k \<noteq> ''research_notes'' \<Longrightarrow> fst (record_notes st notes notes_title) k = st k"
  by (simp add: record_notes_def split: option.splits state_value.splits)

lemma call_tool_keeps_well_formed:
  "notes_well_formed st \<Longrightarrow> notes_well_formed (fst (call_tool st c))"
proof (cases c)
  case (RecordNotes n t)
  assume "notes_well_formed st"
  then show ?thesis using RecordNotes by (simp add: record_notes_keeps_well_formed)
next
  case (WriteReport rc)
  assume "notes_well_formed st"
  then show ?thesis using WriteReport by (simp add: write_report_def notes_well_formed_def)
next
  case (ReviewReport rv)
  assume "notes_well_formed st"
  then show ?thesis using ReviewReport by (simp add: review_report_def notes_well_formed_def)
qed

lemma run_calls_keeps_well_formed:
  "notes_well_formed st \<Longrightarrow> notes_well_formed (fst (run_calls st cs))"
proof (induction cs arbitrary: st)
  case Nil
  then show ?case by simp
next
  case (Cons c cs)
  have wf: "notes_well_formed (fst (call_tool st c))"
    using Cons.prems by (rule call_tool_keeps_well_formed)
  obtain st' r where step: "call_tool st c = (st', r)" by (cases "call_tool st c")
  with wf have wf': "notes_well_formed st'" by simp
  show ?case
  proof (cases r)
    case (Inl e)
    with step wf' show ?thesis by simp
  next
    case (Inr msg)
    obtain st'' r' where rest: "run_calls st' cs = (st'', r')" by (cases "run_calls st' cs")
    from Cons.IH [OF wf'] rest have "notes_well_formed st''" by simp
    with step Inr rest show ?thesis by (cases r') simp_all
  qed
qed

lemma initial_state_well_formed: "notes_well_formed (initial_state agent_workflow)"
  by (simp add: agent_workflow_def notes_well_formed_def)

lemma run_record_notes:
  assumes "notes_well_formed st"
  shows "snd (run_calls st (map (\<lambda>n. RecordNotes n title) ns)) =
           Inr (replicate (length ns) ''Notes recorded.'')
         \<and> notes_well_formed (fst (run_calls st (map (\<lambda>n. RecordNotes n title) ns)))
         \<and> research_note (fst (run_calls st (map (\<lambda>n. RecordNotes n title) ns))) title =
             (if ns = [] then research_note st title else Some (last ns))"
  using assms
proof (induction ns arbitrary: st)
  case Nil
  then show ?case by simp
next
  case (Cons n ns)
  obtain st' r where step: "record_notes st n title = (st', r)"
    by (cases "record_notes st n title")
  from Cons.prems step have r: "r = Inr ''Notes recorded.''"
    using record_notes_returns [of st n title] by simp
  from Cons.prems step have wf': "notes_well_formed st'"
    using record_notes_keeps_well_formed [of st n title] by simp
  from Cons.prems step have stored: "research_note st' title = Some n"
    using record_notes_research_note [of st n title title] by simp
  obtain st'' r' where rest: "run_calls st' (map (\<lambda>n. RecordNotes n title) ns) = (st'', r')"
    by (cases "run_calls st' (map (\<lambda>n. RecordNotes n title) ns)")
  from Cons.IH [OF wf'] rest
  have ih: "r' = Inr (replicate (length ns) ''Notes recorded.'')"
    "notes_well_formed st''"
    "research_note st'' title = (if ns = [] then research_note st' title else Some (last ns))"
    by simp_all
  from step r rest ih stored show ?case by simp
qed

text \<open>
  C1. Last write wins. From a state whose \<^verbatim>\<open>research_notes\<close> is a dictionary or is
  missing, every sequence of one or more \<^verbatim>\<open>record_notes\<close> calls with the same
  \<^verbatim>\<open>notes_title\<close> runs to its end without an exception, each call returning its
  confirmation, and the text stored under the title afterwards is the \<^verbatim>\<open>notes\<close> of the
  last call.
\<close>

theorem record_notes_last_write_wins:
  assumes "notes_well_formed st" and "ns \<noteq> []"
  shows "\<exists>st'. run_calls st (map (\<lambda>n. RecordNotes n title) ns) =
                 (st', Inr (replicate (length ns) ''Notes recorded.''))
             \<and> research_note st' title = Some (last ns)"
proof -
  let ?run = "run_calls st (map (\<lambda>n. RecordNotes n title) ns)"
  from run_record_notes [OF assms(1), of title ns] assms(2)
  have "snd ?run = Inr (replicate (length ns) ''Notes recorded.'')"
    and "research_note (fst ?run) title = Some (last ns)"
    by simp_all
  then show ?thesis by (cases ?run) simp
qed

theorem record_notes_last_write_wins_witness:
  "notes_well_formed (initial_state agent_workflow) \<and> [''first'', ''second''] \<noteq> []
   \<and> (\<exists>st'. run_calls (initial_state agent_workflow)
               [RecordNotes ''first'' ''UX'', RecordNotes ''second'' ''UX''] =
                 (st', Inr [''Notes recorded.'', ''Notes recorded.''])
             \<and> research_note st' ''UX'' = Some ''second'')"
  using record_notes_last_write_wins [of "initial_state agent_workflow" "[''first'', ''second'']" "''UX''"]
  by (simp add: agent_workflow_def notes_well_formed_def)

text \<open>
  C2. Before any tool runs, the shared state is the \<^verbatim>\<open>initial_state\<close> of the workflow:
  \<^verbatim>\<open>research_notes\<close> is the empty dictionary, \<^verbatim>\<open>report_content\<close> is the text
  \<^verbatim>\<open>Not written yet.\<close>, \<^verbatim>\<open>review\<close> is the text \<^verbatim>\<open>Review required.\<close>, and there is
  no other key. It is the first content of the store in every sequence of tool calls,
  and the content after a sequence of no calls.
\<close>

theorem initial_state_defaults:
  "initial_state agent_workflow ''research_notes'' = Some (Dict Map.empty)
   \<and> initial_state agent_workflow ''report_content'' = Some (Str ''Not written yet.'')
   \<and> initial_state agent_workflow ''review'' = Some (Str ''Review required.'')
   \<and> dom (initial_state agent_workflow) = {''research_notes'', ''report_content'', ''review''}
   \<and> hd (store_trace (initial_state agent_workflow) cs) = initial_state agent_workflow
   \<and> run_calls (initial_state agent_workflow) [] = (initial_state agent_workflow, Inr [])"
proof -
  have "hd (store_trace (initial_state agent_workflow) cs) = initial_state agent_workflow"
    by (cases cs) simp_all
  moreover have "dom (initial_state agent_workflow) = {''research_notes'', ''report_content'', ''review''}"
    by (auto simp: agent_workflow_def)
  ultimately show ?thesis by (simp add: agent_workflow_def)
qed

lemma call_tool_report_content:
  "fst (call_tool st c) ''report_content'' =
     (case c of WriteReport rc \<Rightarrow> Some (Str rc) | _ \<Rightarrow> st ''report_content'')"
  by (cases c) (simp_all add: record_notes_other_keys write_report_def review_report_def)

lemma call_tool_review:
  "fst (call_tool st c) ''review'' =
     (case c of ReviewReport rv \<Rightarrow> Some (Str rv) | _ \<Rightarrow> st ''review'')"
  by (cases c) (simp_all add: record_notes_other_keys write_report_def review_report_def)

lemma store_trace_report_content:
  "s \<in> set (store_trace st cs) \<Longrightarrow>
     s ''report_content'' = st ''report_content''
     \<or> (\<exists>rc. WriteReport rc \<in> set cs \<and> s ''report_content'' = Some (Str rc))"
proof (induction cs arbitrary: st)
  case Nil
  then show ?case by simp
next
  case (Cons c cs)
  obtain st' r where step: "call_tool st c = (st', r)" by (cases "call_tool st c")
  have first: "st' ''report_content'' =
      (case c of WriteReport rc \<Rightarrow> Some (Str rc) | _ \<Rightarrow> st ''report_content'')"
    using call_tool_report_content [of st c] step by simp
  have here: "st' ''report_content'' = st ''report_content''
      \<or> (\<exists>rc. WriteReport rc \<in> set (c # cs) \<and> st' ''report_content'' = Some (Str rc))"
    using first by (cases c) auto
  from Cons.prems step have "s = st \<or> s = st' \<or> s \<in> set (store_trace st' cs)"
    by (cases r) auto
  then consider "s = st" | "s = st'" | "s \<in> set (store_trace st' cs)" by blast
  then show ?case
  proof cases
    case 1
    then show ?thesis by simp
  next
    case 2
    with here show ?thesis by simp
  next
    case 3
    from Cons.IH [OF 3] here show ?thesis by auto
  qed
qed

lemma store_trace_review:
  "s \<in> set (store_trace st cs) \<Longrightarrow>
     s ''review'' = st ''review''
     \<or> (\<exists>rv. ReviewReport rv \<in> set cs \<and> s ''review'' = Some (Str rv))"
proof (induction cs arbitrary: st)
  case Nil
  then show ?case by simp
next
  case (Cons c cs)
  obtain st' r where step: "call_tool st c = (st', r)" by (cases "call_tool st c")
  have first: "st' ''review'' =
      (case c of ReviewReport rv \<Rightarrow> Some (Str rv) | _ \<Rightarrow> st ''review'')"
    using call_tool_review [of st c] step by simp
  have here: "st' ''review'' = st ''review''
      \<or> (\<exists>rv. ReviewReport rv \<in> set (c # cs) \<and> st' ''review'' = Some (Str rv))"
    using first by (cases c) auto
  from Cons.prems step have "s = st \<or> s = st' \<or> s \<in> set (store_trace st' cs)"
    by (cases r) auto
  then consider "s = st" | "s = st'" | "s \<in> set (store_trace st' cs)" by blast
  then show ?case
  proof cases
    case 1
    then show ?thesis by simp
  next
    case 2
    with here show ?thesis by simp
  next
    case 3
    from Cons.IH [OF 3] here show ?thesis by auto
  qed
qed

text \<open>
  C3. For every text and every prior state, \<^verbatim>\<open>write_report\<close> leaves exactly its argument
  under \<^verbatim>\<open>report_content\<close> and \<^verbatim>\<open>review_report\<close> leaves exactly its argument under
  \<^verbatim>\<open>review\<close>. The store holds the prior state and then the state with the whole new
  text, and in every sequence of tool calls each content of the store has under
  \<^verbatim>\<open>report_content\<close> (under \<^verbatim>\<open>review\<close>) either what the sequence started with or the
  whole argument of one of its \<^verbatim>\<open>write_report\<close> (\<^verbatim>\<open>review_report\<close>) calls: no other
  value of the field is ever in the store.
\<close>

theorem write_and_review_overwrite:
  "fst (write_report st report_content) ''report_content'' = Some (Str report_content)
   \<and> fst (review_report st review) ''review'' = Some (Str review)
   \<and> store_trace st [WriteReport report_content] = [st, st(''report_content'' \<mapsto> Str report_content)]
   \<and> store_trace st [ReviewReport review] = [st, st(''review'' \<mapsto> Str review)]
   \<and> (\<forall>s \<in> set (store_trace st cs).
         s ''report_content'' = st ''report_content''
         \<or> (\<exists>rc. WriteReport rc \<in> set cs \<and> s ''report_content'' = Some (Str rc)))
   \<and> (\<forall>s \<in> set (store_trace st cs).
         s ''review'' = st ''review''
         \<or> (\<exists>rv. ReviewReport rv \<in> set cs \<and> s ''review'' = Some (Str rv)))"
  using store_trace_report_content [of _ st cs] store_trace_review [of _ st cs]
  by (simp add: write_report_def review_report_def)

theorem write_and_review_overwrite_witness:
  "fst (write_report (initial_state agent_workflow) ''# PRD'') ''report_content'' = Some (Str ''# PRD'')
   \<and> fst (review_report (initial_state agent_workflow) ''Approved.'') ''review'' = Some (Str ''Approved.'')
   \<and> (let s = last (store_trace (initial_state agent_workflow)
                      [WriteReport ''draft'', ReviewReport ''Approved.'', WriteReport ''# PRD''])
      in s \<in> set (store_trace (initial_state agent_workflow)
                      [WriteReport ''draft'', ReviewReport ''Approved.'', WriteReport ''# PRD''])
         \<and> s ''report_content'' = Some (Str ''# PRD'')
         \<and> s ''review'' = Some (Str ''Approved.''))"
  using write_and_review_overwrite [of "initial_state agent_workflow" "''# PRD''" "''Approved.''"
      "[WriteReport ''draft'', ReviewReport ''Approved.'', WriteReport ''# PRD'']"]
  by (simp add: agent_workflow_def write_report_def review_report_def)

text \<open>
  C8. Each tool that edits the state returns a fixed confirmation, whatever its arguments
  and the prior state (with \<^verbatim>\<open>research_notes\<close> a dictionary or missing):
  \<^verbatim>\<open>record_notes\<close> returns \<^verbatim>\<open>Notes recorded.\<close>, \<^verbatim>\<open>write_report\<close> returns
  \<^verbatim>\<open>Report written.\<close> and \<^verbatim>\<open>review_report\<close> returns \<^verbatim>\<open>Report reviewed.\<close>.
\<close>

theorem tools_return_fixed_text:
  assumes "notes_well_formed st"
  shows "snd (record_notes st notes notes_title) = Inr ''Notes recorded.''
         \<and> snd (write_report st report_content) = Inr ''Report written.''
         \<and> snd (review_report st review) = Inr ''Report reviewed.''"
  using assms
  by (simp add: record_notes_def notes_well_formed_def write_report_def review_report_def
           split: option.splits state_value.splits)

theorem tools_return_fixed_text_witness:
  "notes_well_formed (initial_state agent_workflow)
   \<and> snd (record_notes (initial_state agent_workflow) ''Notes'' ''UX best practices'') = Inr ''Notes recorded.''
   \<and> snd (write_report (initial_state agent_workflow) ''# PRD'') = Inr ''Report written.''
   \<and> snd (review_report (initial_state agent_workflow) ''Approved.'') = Inr ''Report reviewed.''"
  using tools_return_fixed_text [of "initial_state agent_workflow" "''Notes''" "''UX best practices''"
      "''# PRD''" "''Approved.''"]
  by (simp add: agent_workflow_def notes_well_formed_def)

text \<open>
  C9. On a state that has no \<^verbatim>\<open>research_notes\<close> key, \<^verbatim>\<open>record_notes\<close> succeeds: it
  creates the empty dictionary and inserts the entry, so the state afterwards holds the
  dictionary with exactly that entry, and the confirmation is returned.
\<close>

theorem record_notes_creates_missing_notes:
  assumes "st ''research_notes'' = None"
  shows "record_notes st notes notes_title =
           (st(''research_notes'' \<mapsto> Dict (Map.empty(notes_title \<mapsto> notes))), Inr ''Notes recorded.'')"
  using assms by (simp add: record_notes_def)

theorem record_notes_creates_missing_notes_witness:
  "Map.empty ''research_notes'' = (None :: state_value option)
   \<and> record_notes Map.empty ''Notes'' ''UX best practices'' =
       ([''research_notes'' \<mapsto> Dict [''UX best practices'' \<mapsto> ''Notes'']], Inr ''Notes recorded.'')"
  using record_notes_creates_missing_notes [of Map.empty "''Notes''" "''UX best practices''"]
  by simp

text \<open>
  C10. Each tool that edits the state changes its own key only. For every prior state and
  all arguments, \<^verbatim>\<open>record_notes\<close> leaves \<^verbatim>\<open>report_content\<close> and \<^verbatim>\<open>review\<close> as
  they were, \<^verbatim>\<open>write_report\<close> leaves \<^verbatim>\<open>research_notes\<close> and \<^verbatim>\<open>review\<close>, and
  \<^verbatim>\<open>review_report\<close> leaves \<^verbatim>\<open>research_notes\<close> and \<^verbatim>\<open>report_content\<close>; indeed
  every key other than the tool's own keeps its value.
\<close>

theorem tools_touch_own_field_only:
  "fst (record_notes st notes notes_title) ''report_content'' = st ''report_content''
   \<and> fst (record_notes st notes notes_title) ''review'' = st ''review''
   \<and> fst (write_report st report_content) ''research_notes'' = st ''research_notes''
   \<and> fst (write_report st report_content) ''review'' = st ''review''
   \<and> fst (review_report st review) ''research_notes'' = st ''research_notes''
   \<and> fst (review_report st review) ''report_content'' = st ''report_content''
   \<and> fst (record_notes st notes notes_title) |` (- {''research_notes''}) = st |` (- {''research_notes''})
   \<and> fst (write_report st report_content) |` (- {''report_content''}) = st |` (- {''report_content''})
   \<and> fst (review_report st review) |` (- {''review''}) = st |` (- {''review''})"
proof -
  have "fst (record_notes st notes notes_title) |` (- {''research_notes''}) = st |` (- {''research_notes''})"
    by (rule ext) (simp add: restrict_map_def record_notes_other_keys)
  then show ?thesis
    by (simp add: record_notes_other_keys write_report_def review_report_def)
qed

section \<open>Properties of the startup and of the declarations\<close>

lemma module_does_not_compile: "\<not> module_compiles"
  by (simp add: module_compiles_def is_identifier_def line_34_target_def identifier_char_def
        identifier_start_def)

lemma startup_raises_syntax_error:
  "startup load_dotenv env is_main = ([], Inl (SyntaxError ''invalid syntax''))"
  by (simp add: startup_def module_does_not_compile)

text \<open>
  C4 fails on the code. Line 34 does not parse, so the program raises \<^verbatim>\<open>SyntaxError\<close>
  at startup in every environment, with no statement run: with \<^verbatim>\<open>GOOGLE_API_KEY\<close>
  present the start still ends in an error, and with the variable absent or empty the
  error is the parser's and not the \<^verbatim>\<open>ValueError\<close> of lines 22 to 25, which is never
  reached.
\<close>

theorem startup_fails_with_key_present:
  "startup id [''GOOGLE_API_KEY'' \<mapsto> ''k''] True = ([], Inl (SyntaxError ''invalid syntax''))
   \<and> startup id Map.empty True = ([], Inl (SyntaxError ''invalid syntax''))
   \<and> startup id [''GOOGLE_API_KEY'' \<mapsto> ''''] True = ([], Inl (SyntaxError ''invalid syntax''))"
  by (simp add: startup_raises_syntax_error)

lemma handoff_targets_agent_workflow:
  "handoff_targets agent_workflow a =
     (if a = ''ResearchAgent'' then [''WriteAgent'']
      else if a = ''WriteAgent'' then [''ReviewAgent'', ''ResearchAgent'']
      else if a = ''ReviewAgent'' then [''ResearchAgent'', ''WriteAgent'']
      else [])"
  by (simp add: handoff_targets_def agent_workflow_def research_agent_def write_agent_def
        review_agent_def)

lemma root_agent_agent_workflow: "root_agent agent_workflow = ''ResearchAgent''"
  by (simp add: agent_workflow_def research_agent_def)

lemma active_agent_workflow:
  "active agent_workflow a \<longleftrightarrow> a \<in> {''ResearchAgent'', ''WriteAgent'', ''ReviewAgent''}"
proof
  assume "active agent_workflow a"
  then show "a \<in> {''ResearchAgent'', ''WriteAgent'', ''ReviewAgent''}"
  proof (induction rule: active.induct)
    case root
    then show ?case by (simp add: root_agent_agent_workflow)
  next
    case (handoff a b)
    then show ?case
      by (auto simp: can_handoff_def handoff_targets_agent_workflow split: if_splits)
  qed
next
  assume a: "a \<in> {''ResearchAgent'', ''WriteAgent'', ''ReviewAgent''}"
  have r: "active agent_workflow ''ResearchAgent''"
    using active.root [of agent_workflow] by (simp add: root_agent_agent_workflow)
  have w: "active agent_workflow ''WriteAgent''"
    by (rule active.handoff [OF r]) (simp add: can_handoff_def handoff_targets_agent_workflow)
  have v: "active agent_workflow ''ReviewAgent''"
    by (rule active.handoff [OF w]) (simp add: can_handoff_def handoff_targets_agent_workflow)
  from a r w v show "active agent_workflow a" by auto
qed

lemma transition_agent_workflow:
  "transition agent_workflow a b \<longleftrightarrow>
     (a, b) \<in> {(''ResearchAgent'', ''WriteAgent''),
               (''WriteAgent'', ''ReviewAgent''), (''WriteAgent'', ''ResearchAgent''),
               (''ReviewAgent'', ''ResearchAgent''), (''ReviewAgent'', ''WriteAgent'')}"
proof (cases "a = ''ResearchAgent''")
  case True
  then show ?thesis
    by (simp add: transition_def active_agent_workflow can_handoff_def handoff_targets_agent_workflow)
next
  case not_research: False
  show ?thesis
  proof (cases "a = ''WriteAgent''")
    case True
    then show ?thesis
      by (simp add: transition_def active_agent_workflow can_handoff_def
            handoff_targets_agent_workflow)
  next
    case not_write: False
    show ?thesis
    proof (cases "a = ''ReviewAgent''")
      case True
      then show ?thesis
        by (simp add: transition_def active_agent_workflow can_handoff_def
              handoff_targets_agent_workflow)
    next
      case False
      with not_research not_write show ?thesis
        by (simp add: transition_def active_agent_workflow)
    qed
  qed
qed

text \<open>
  C5. The declared state machine: the agents are ResearchAgent, WriteAgent and
  ReviewAgent, the root agent is ResearchAgent, and the declared handoff targets are
  WriteAgent for ResearchAgent, ReviewAgent and ResearchAgent for WriteAgent, and
  ResearchAgent and WriteAgent for ReviewAgent. The agents that can become active are
  these three, and the transitions that can be taken from an active agent are exactly
  the five declared edges.
\<close>

theorem declared_state_machine:
  "map name (agents agent_workflow) = [''ResearchAgent'', ''WriteAgent'', ''ReviewAgent'']
   \<and> root_agent agent_workflow = ''ResearchAgent''
   \<and> handoff_targets agent_workflow ''ResearchAgent'' = [''WriteAgent'']
   \<and> handoff_targets agent_workflow ''WriteAgent'' = [''ReviewAgent'', ''ResearchAgent'']
   \<and> handoff_targets agent_workflow ''ReviewAgent'' = [''ResearchAgent'', ''WriteAgent'']
   \<and> (active agent_workflow a \<longleftrightarrow> a \<in> {''ResearchAgent'', ''WriteAgent'', ''ReviewAgent''})
   \<and> (transition agent_workflow a b \<longleftrightarrow>
        (a, b) \<in> {(''ResearchAgent'', ''WriteAgent''),
                  (''WriteAgent'', ''ReviewAgent''), (''WriteAgent'', ''ResearchAgent''),
                  (''ReviewAgent'', ''ResearchAgent''), (''ReviewAgent'', ''WriteAgent'')})"
proof (intro conjI)
  show "map name (agents agent_workflow) = [''ResearchAgent'', ''WriteAgent'', ''ReviewAgent'']"
    by (simp add: agent_workflow_def research_agent_def write_agent_def review_agent_def)
  show "root_agent agent_workflow = ''ResearchAgent''"
    by (rule root_agent_agent_workflow)
  show "handoff_targets agent_workflow ''ResearchAgent'' = [''WriteAgent'']"
    by (simp add: handoff_targets_agent_workflow)
  show "handoff_targets agent_workflow ''WriteAgent'' = [''ReviewAgent'', ''ResearchAgent'']"
    by (simp add: handoff_targets_agent_workflow)
  show "handoff_targets agent_workflow ''ReviewAgent'' = [''ResearchAgent'', ''WriteAgent'']"
    by (simp add: handoff_targets_agent_workflow)
  show "active agent_workflow a \<longleftrightarrow> a \<in> {''ResearchAgent'', ''WriteAgent'', ''ReviewAgent''}"
    by (rule active_agent_workflow)
  show "transition agent_workflow a b \<longleftrightarrow>
        (a, b) \<in> {(''ResearchAgent'', ''WriteAgent''),
                  (''WriteAgent'', ''ReviewAgent''), (''WriteAgent'', ''ResearchAgent''),
                  (''ReviewAgent'', ''ResearchAgent''), (''ReviewAgent'', ''WriteAgent'')}"
    by (rule transition_agent_workflow)
qed

section \<open>Properties of the renderer\<close>

text \<open>
  C6, as stated, fails on an agent-output event that carries a \<^verbatim>\<open>current_agent_name\<close>
  other than the renderer's \<^verbatim>\<open>current_agent\<close>: the first branch of the loop takes it,
  the banner is printed, and neither the content nor the planned tools are.
\<close>

theorem agent_output_banner_counterexample:
  "render_event None
     \<lparr> current_agent_name = Some ''ResearchAgent'',
       kind = AgentOutput (Some ''Found it.'') [''record_notes''] \<rparr>
   = Inr (Some ''ResearchAgent'', [AgentBanner ''ResearchAgent''])"
  by (simp add: render_event_def)

text \<open>
  C6, amended. For every agent-output event that does not change the current agent (it
  has no \<^verbatim>\<open>current_agent_name\<close>, or the name is the renderer's \<^verbatim>\<open>current_agent\<close>),
  the renderer prints the content when it is not empty and then the names of the planned
  tools when there are tool calls, and nothing else; \<^verbatim>\<open>current_agent\<close> stays as it is.
  Every agent-output event whose \<^verbatim>\<open>current_agent_name\<close> differs from
  \<^verbatim>\<open>current_agent\<close> prints the banner of that agent only, and \<^verbatim>\<open>current_agent\<close>
  becomes that name.
\<close>

theorem agent_output_rendering:
  assumes "kind ev = AgentOutput content tool_calls"
  shows "(current_agent_name ev = None \<or> current_agent_name ev = current_agent \<longrightarrow>
            render_event current_agent ev =
              Inr (current_agent,
                   (case content of None \<Rightarrow> [] | Some c \<Rightarrow> if c = [] then [] else [OutputLine c])
                   @ (if tool_calls = [] then [] else [PlanningLine tool_calls])))
         \<and> (\<forall>n. current_agent_name ev = Some n \<and> Some n \<noteq> current_agent \<longrightarrow>
              render_event current_agent ev = Inr (Some n, [AgentBanner n]))"
  using assms by (auto simp: render_event_def split: option.splits)

theorem agent_output_rendering_witness:
  "render_event (Some ''ResearchAgent'')
     \<lparr> current_agent_name = Some ''ResearchAgent'',
       kind = AgentOutput (Some ''Found it.'') [''record_notes''] \<rparr>
   = Inr (Some ''ResearchAgent'', [OutputLine ''Found it.'', PlanningLine [''record_notes'']])
   \<and> render_event (Some ''ResearchAgent'')
     \<lparr> current_agent_name = None, kind = AgentOutput (Some '''') [''record_notes''] \<rparr>
   = Inr (Some ''ResearchAgent'', [PlanningLine [''record_notes'']])
   \<and> render_event (Some ''ResearchAgent'')
     \<lparr> current_agent_name = Some ''WriteAgent'',
       kind = AgentOutput (Some ''Found it.'') [''record_notes''] \<rparr>
   = Inr (Some ''WriteAgent'', [AgentBanner ''WriteAgent''])"
  using agent_output_rendering [of
      "\<lparr> current_agent_name = Some ''ResearchAgent'',
         kind = AgentOutput (Some ''Found it.'') [''record_notes''] \<rparr>"
      "Some ''Found it.''" "[''record_notes'']" "Some ''ResearchAgent''"]
    agent_output_rendering [of
      "\<lparr> current_agent_name = None, kind = AgentOutput (Some '''') [''record_notes''] \<rparr>"
      "Some ''''" "[''record_notes'']" "Some ''ResearchAgent''"]
    agent_output_rendering [of
      "\<lparr> current_agent_name = Some ''WriteAgent'',
         kind = AgentOutput (Some ''Found it.'') [''record_notes''] \<rparr>"
      "Some ''Found it.''" "[''record_notes'']" "Some ''ResearchAgent''"]
  by simp

lemma shown_output_eq:
  "shown_output tool_output =
     (case py_str tool_output of Inl e \<Rightarrow> Inl e | Inr s \<Rightarrow> Inr (take 300 s))"
  by (simp add: shown_output_def split: sum.splits)

lemma py_str_returns:
  "(\<exists>s. py_str v = Inr s) \<longleftrightarrow>
     v = PNone \<or> (\<exists>b. v = PBool b) \<or> (\<exists>t. v = PStr t)
     \<or> (\<exists>i. v = PInt i \<and> \<bar>i\<bar> < 10 ^ int_max_str_digits) \<or> (\<exists>t. v = PObj (Inr t))"
proof (cases v)
  case (PInt i)
  then show ?thesis by (simp add: not_le)
next
  case (PObj r)
  then show ?thesis by (cases r) simp_all
qed simp_all

lemma small_int_below_limit: "\<bar>i\<bar> < 10 ^ 4 \<Longrightarrow> \<not> (10::int) ^ int_max_str_digits \<le> \<bar>i\<bar>"
proof -
  assume small: "\<bar>i\<bar> < 10 ^ 4"
  have "(10::int) ^ 4 \<le> 10 ^ int_max_str_digits"
    by (rule power_increasing) (simp_all add: int_max_str_digits_def)
  with small show ?thesis by linarith
qed

text \<open>
  C7, as stated, fails on a tool output whose \<^verbatim>\<open>str\<close> raises: the integer
  \<^verbatim>\<open>10 ** 4300\<close> has 4301 digits, \<^verbatim>\<open>str\<close> raises \<^verbatim>\<open>ValueError\<close> for it, and the
  exception leaves the renderer.
\<close>

theorem tool_result_str_raises_counterexample:
  "render_event None
     \<lparr> current_agent_name = None, kind = ToolCallResult ''count'' (PInt (10 ^ int_max_str_digits)) \<rparr>
   = Inl (ValueError ''Exceeds the limit (4300 digits) for integer string conversion'')"
proof -
  have "py_str (PInt (10 ^ int_max_str_digits)) =
      Inl (ValueError ''Exceeds the limit (4300 digits) for integer string conversion'')"
    by simp
  then show ?thesis by (simp add: render_event_def shown_output_eq)
qed

text \<open>
  C7, amended. For every tool-call-result event that does not change the current agent:
  when \<^verbatim>\<open>str(tool_output)\<close> returns a text, rendering returns without an exception
  and prints the tool's name and the line \<^verbatim>\<open>Output:\<close> with the first 300 characters of
  that text followed by three dots, so the text shown for the output is never longer
  than 300 characters and is exactly 300 long when the output is longer; when
  \<^verbatim>\<open>str(tool_output)\<close> raises, rendering raises that exception. \<^verbatim>\<open>str\<close> returns
  for \<^verbatim>\<open>None\<close>, a boolean, a text, an integer of at most 4300 digits and an object
  whose \<^verbatim>\<open>__str__\<close> returns, and for no other output. Every tool-call-result event that
  changes the current agent prints the banner only and raises nothing.
\<close>

theorem tool_result_rendering:
  assumes "kind ev = ToolCallResult tool_name tool_output"
  shows "(\<forall>s. py_str tool_output = Inr s \<longrightarrow>
            shown_output tool_output = Inr (take 300 s)
            \<and> length (take 300 s) \<le> 300
            \<and> (300 < length s \<longrightarrow> length (take 300 s) = 300)
            \<and> (current_agent_name ev = None \<or> current_agent_name ev = current_agent \<longrightarrow>
                 render_event current_agent ev =
                   Inr (current_agent,
                        [ToolResultLine tool_name,
                         Plain (''    Output: '' @ take 300 s @ ''...'')])))
         \<and> (\<forall>e. py_str tool_output = Inl e \<longrightarrow>
              shown_output tool_output = Inl e
              \<and> (current_agent_name ev = None \<or> current_agent_name ev = current_agent \<longrightarrow>
                   render_event current_agent ev = Inl e))
         \<and> ((\<exists>s. py_str tool_output = Inr s) \<longleftrightarrow>
              tool_output = PNone \<or> (\<exists>b. tool_output = PBool b) \<or> (\<exists>t. tool_output = PStr t)
              \<or> (\<exists>i. tool_output = PInt i \<and> \<bar>i\<bar> < 10 ^ int_max_str_digits)
              \<or> (\<exists>t. tool_output = PObj (Inr t)))
         \<and> (\<forall>n. current_agent_name ev = Some n \<and> Some n \<noteq> current_agent \<longrightarrow>
              render_event current_agent ev = Inr (Some n, [AgentBanner n]))"
proof (intro conjI)
  show "\<forall>s. py_str tool_output = Inr s \<longrightarrow>
            shown_output tool_output = Inr (take 300 s)
            \<and> length (take 300 s) \<le> 300
            \<and> (300 < length s \<longrightarrow> length (take 300 s) = 300)
            \<and> (current_agent_name ev = None \<or> current_agent_name ev = current_agent \<longrightarrow>
                 render_event current_agent ev =
                   Inr (current_agent,
                        [ToolResultLine tool_name,
                         Plain (''    Output: '' @ take 300 s @ ''...'')]))"
    using assms by (auto simp: render_event_def shown_output_eq split: option.splits)
  show "\<forall>e. py_str tool_output = Inl e \<longrightarrow>
              shown_output tool_output = Inl e
              \<and> (current_agent_name ev = None \<or> current_agent_name ev = current_agent \<longrightarrow>
                   render_event current_agent ev = Inl e)"
    using assms by (auto simp: render_event_def shown_output_eq split: option.splits)
  show "(\<exists>s. py_str tool_output = Inr s) \<longleftrightarrow>
              tool_output = PNone \<or> (\<exists>b. tool_output = PBool b) \<or> (\<exists>t. tool_output = PStr t)
              \<or> (\<exists>i. tool_output = PInt i \<and> \<bar>i\<bar> < 10 ^ int_max_str_digits)
              \<or> (\<exists>t. tool_output = PObj (Inr t))"
    by (rule py_str_returns)
  show "\<forall>n. current_agent_name ev = Some n \<and> Some n \<noteq> current_agent \<longrightarrow>
              render_event current_agent ev = Inr (Some n, [AgentBanner n])"
    by (simp add: render_event_def)
qed

theorem tool_result_rendering_witness:
  "shown_output (PStr (replicate 301 CHR ''x'')) = Inr (replicate 300 CHR ''x'')
   \<and> render_event (Some ''ResearchAgent'')
       \<lparr> current_agent_name = None,
         kind = ToolCallResult ''search_web'' (PStr (replicate 301 CHR ''x'')) \<rparr>
     = Inr (Some ''ResearchAgent'',
            [ToolResultLine ''search_web'',
             Plain (''    Output: '' @ replicate 300 CHR ''x'' @ ''...'')])
   \<and> render_event (Some ''ResearchAgent'')
       \<lparr> current_agent_name = None, kind = ToolCallResult ''count'' (PInt (- 42)) \<rparr>
     = Inr (Some ''ResearchAgent'', [ToolResultLine ''count'', Plain ''    Output: -42...''])
   \<and> render_event (Some ''ResearchAgent'')
       \<lparr> current_agent_name = None,
         kind = ToolCallResult ''search_web'' (PObj (Inl (ValueError ''no text''))) \<rparr>
     = Inl (ValueError ''no text'')
   \<and> render_event (Some ''ResearchAgent'')
       \<lparr> current_agent_name = Some ''WriteAgent'',
         kind = ToolCallResult ''search_web'' (PObj (Inl (ValueError ''no text''))) \<rparr>
     = Inr (Some ''WriteAgent'', [AgentBanner ''WriteAgent''])
   \<and> py_slice_to (PInt (- 42)) 300 = Inl (TypeError ''object is not subscriptable'')"
proof -
  have str_x: "py_str (PStr (replicate 301 CHR ''x'')) = Inr (replicate 301 CHR ''x'')"
    by simp
  have str_42: "py_str (PInt (- 42)) = Inr ''-42''"
    using small_int_below_limit [of "- 42"] by (simp add: digits.simps)
  have str_obj: "py_str (PObj (Inl (ValueError ''no text''))) = Inl (ValueError ''no text'')"
    by simp
  show ?thesis
    using tool_result_rendering [of
        "\<lparr> current_agent_name = None,
           kind = ToolCallResult ''search_web'' (PStr (replicate 301 CHR ''x'')) \<rparr>"
        "''search_web''" "PStr (replicate 301 CHR ''x'')" "Some ''ResearchAgent''"]
      tool_result_rendering [of
        "\<lparr> current_agent_name = None, kind = ToolCallResult ''count'' (PInt (- 42)) \<rparr>"
        "''count''" "PInt (- 42)" "Some ''ResearchAgent''"]
      tool_result_rendering [of
        "\<lparr> current_agent_name = None,
           kind = ToolCallResult ''search_web'' (PObj (Inl (ValueError ''no text''))) \<rparr>"
        "''search_web''" "PObj (Inl (ValueError ''no text''))" "Some ''ResearchAgent''"]
      tool_result_rendering [of
        "\<lparr> current_agent_name = Some ''WriteAgent'',
           kind = ToolCallResult ''search_web'' (PObj (Inl (ValueError ''no text''))) \<rparr>"
        "''search_web''" "PObj (Inl (ValueError ''no text''))" "Some ''ResearchAgent''"]
    unfolding str_x str_42 str_obj
    by simp
qed

end
